theory Spec2Isabelle
  imports Complex_Main "HOL-Library.Word"
begin

unbundle bit_operations_syntax

section \<open>Resample.cpp: the interface to libsoxr\<close>

text \<open>
  \<^verbatim>\<open>size_t\<close> is read as a 64-bit word, so that \<^verbatim>\<open>~inBufferLen\<close> is the bitwise
  complement \<open>NOT\<close>. A \<^verbatim>\<open>double\<close> is read as a real number: the model covers the
  finite values, where \<^verbatim>\<open>==\<close> is equality; the rounding of \<^verbatim>\<open>1/factor\<close>, NaN
  and the infinities (the quotient at \<^verbatim>\<open>factor == 0\<close>) are outside it. Samples are
  never computed on by Resample.cpp, so their type \<open>'s\<close> is left open.
\<close>

type_synonym size_t = "64 word"
type_synonym double = real

subsection \<open>The persisted quality settings\<close>

text \<open>
  \<^verbatim>\<open>methodNames\<close>, the keys, the defaults and \<^verbatim>\<open>intChoicesMethod\<close> are the
  static data of Resample.cpp (lines 55-102). An \<^verbatim>\<open>EnumValueSymbol\<close> is the pair of
  its internal name and its user-visible text. The fields of \<open>EnumSetting\<close> are the
  constructor arguments in the order Resample.cpp gives them.
\<close>

type_synonym EnumValueSymbol = "string \<times> string"

record EnumSetting =
  mKey :: string
  mSymbols :: "EnumValueSymbol list"
  mnSymbols :: nat
  mDefaultSymbol :: nat
  mIntValues :: "int list"
  mOldKey :: string

definition methodNames :: "EnumValueSymbol list" where
  "methodNames =
     [(''LowQuality'', ''Low Quality (Fastest)''),
      (''MediumQuality'', ''Medium Quality''),
      (''HighQuality'', ''High Quality''),
      (''BestQuality'', ''Best Quality (Slowest)'')]"

definition numMethods :: nat where
  "numMethods = length methodNames"

definition fastMethodKey :: string where
  "fastMethodKey = ''/Quality/LibsoxrSampleRateConverterChoice''"

definition bestMethodKey :: string where
  "bestMethodKey = ''/Quality/LibsoxrHQSampleRateConverterChoice''"

definition oldFastMethodKey :: string where
  "oldFastMethodKey = ''/Quality/LibsoxrSampleRateConverter''"

definition oldBestMethodKey :: string where
  "oldBestMethodKey = ''/Quality/LibsoxrHQSampleRateConverter''"

definition fastMethodDefault :: nat where
  "fastMethodDefault = 1"

definition bestMethodDefault :: nat where
  "bestMethodDefault = 3"

definition intChoicesMethod :: "int list" where
  "intChoicesMethod = [0, 1, 2, 3]"

definition FastMethodSetting :: EnumSetting where
  "FastMethodSetting =
     \<lparr>mKey = fastMethodKey, mSymbols = methodNames, mnSymbols = numMethods,
      mDefaultSymbol = fastMethodDefault, mIntValues = intChoicesMethod,
      mOldKey = oldFastMethodKey\<rparr>"

definition BestMethodSetting :: EnumSetting where
  "BestMethodSetting =
     \<lparr>mKey = bestMethodKey, mSymbols = methodNames, mnSymbols = numMethods,
      mDefaultSymbol = bestMethodDefault, mIntValues = intChoicesMethod,
      mOldKey = oldBestMethodKey\<rparr>"

subsection \<open>What lies outside Resample.cpp\<close>

text \<open>
  \<^verbatim>\<open>soxr_quality_spec(recipe, flags)\<close> is kept symbolic: \<open>Quality_spec recipe flags\<close>
  stands for the structure libsoxr builds from the two numbers.
\<close>

datatype soxr_quality_spec_t = Quality_spec nat nat

text \<open>
  What one call of \<^verbatim>\<open>soxr_process\<close> leaves behind: the converter's state, the two
  counts if it stored them through \<^verbatim>\<open>&idone\<close> and \<^verbatim>\<open>&odone\<close> (\<open>None\<close>: it left
  the variable as it was), the contents of the output buffer, and whether it returned
  an error.
\<close>

record ('h, 's) soxr_process_result =
  handle_after :: "'h option"
  idone_stored :: "size_t option"
  odone_stored :: "size_t option"
  out_after :: "'s list"
  soxr_error :: bool

text \<open>
  The functions and macros Resample.cpp takes from Prefs.h and soxr.h, as parameters:
  the settings reader \<^verbatim>\<open>EnumSetting::ReadInt\<close> (a function of the setting and the
  persisted store, a map from keys to stored values), the macros \<^verbatim>\<open>SOXR_HQ\<close> and
  \<^verbatim>\<open>SOXR_VR\<close>, and the three entry points of libsoxr. A handle is \<open>'h option\<close>, with
  \<open>None\<close> the null pointer; \<open>soxr_create\<close> takes the input rate, the output rate, the
  number of channels and the quality specification (the error, I/O and runtime
  arguments are all passed as 0 by Resample.cpp).
\<close>

record ('h, 's) env =
  ReadInt :: "EnumSetting \<Rightarrow> (string \<rightharpoonup> string) \<Rightarrow> int"
  SOXR_HQ :: nat
  SOXR_VR :: nat
  soxr_create :: "double \<Rightarrow> double \<Rightarrow> nat \<Rightarrow> soxr_quality_spec_t \<Rightarrow> 'h option"
  soxr_set_io_ratio :: "'h option \<Rightarrow> double \<Rightarrow> size_t \<Rightarrow> 'h option"
  soxr_process ::
    "'h option \<Rightarrow> 's list \<Rightarrow> size_t \<Rightarrow> 's list \<Rightarrow> size_t \<Rightarrow> ('h, 's) soxr_process_result"

text \<open>
  The state outside a \<open>Resample\<close> object: the persisted settings store, the keys of
  the settings read so far, and the calls made to libsoxr so far, oldest first.
\<close>

datatype 's soxr_call =
    Soxr_create double double nat soxr_quality_spec_t
  | Soxr_set_io_ratio double size_t
  | Soxr_process "'s list" size_t size_t

record 's world =
  gPrefs :: "string \<rightharpoonup> string"
  pref_reads :: "string list"
  soxr_calls :: "'s soxr_call list"

definition call_ReadInt :: "('h, 's) env \<Rightarrow> EnumSetting \<Rightarrow> 's world \<Rightarrow> int \<times> 's world" where
  "call_ReadInt e s w = (ReadInt e s (gPrefs w), w\<lparr>pref_reads := pref_reads w @ [mKey s]\<rparr>)"

definition call_soxr_create ::
  "('h, 's) env \<Rightarrow> double \<Rightarrow> double \<Rightarrow> nat \<Rightarrow> soxr_quality_spec_t \<Rightarrow> 's world
     \<Rightarrow> 'h option \<times> 's world" where
  "call_soxr_create e irate orate nch q w =
     (soxr_create e irate orate nch q,
      w\<lparr>soxr_calls := soxr_calls w @ [Soxr_create irate orate nch q]\<rparr>)"

definition call_soxr_set_io_ratio ::
  "('h, 's) env \<Rightarrow> 'h option \<Rightarrow> double \<Rightarrow> size_t \<Rightarrow> 's world \<Rightarrow> 'h option \<times> 's world" where
  "call_soxr_set_io_ratio e h io_ratio slew_len w =
     (soxr_set_io_ratio e h io_ratio slew_len,
      w\<lparr>soxr_calls := soxr_calls w @ [Soxr_set_io_ratio io_ratio slew_len]\<rparr>)"

definition call_soxr_process ::
  "('h, 's) env \<Rightarrow> 'h option \<Rightarrow> 's list \<Rightarrow> size_t \<Rightarrow> 's list \<Rightarrow> size_t \<Rightarrow> 's world
     \<Rightarrow> ('h, 's) soxr_process_result \<times> 's world" where
  "call_soxr_process e h inb ilen outb olen w =
     (soxr_process e h inb ilen outb olen,
      w\<lparr>soxr_calls := soxr_calls w @ [Soxr_process inb ilen olen]\<rparr>)"

subsection \<open>The class Resample\<close>

record 'h Resample =
  mMethod :: int
  mHandle :: "'h option"
  mbWantConstRateResampling :: bool

text \<open>
  \<^verbatim>\<open>Resample::SetMethod\<close> (lines 132-138) assigns \<open>mMethod\<close>; here it returns the value
  it assigns.
\<close>

definition SetMethod :: "('h, 's) env \<Rightarrow> bool \<Rightarrow> 's world \<Rightarrow> int \<times> 's world" where
  "SetMethod e useBestMethod w =
     (if useBestMethod then call_ReadInt e BestMethodSetting w
      else call_ReadInt e FastMethodSetting w)"

text \<open>
  \<^verbatim>\<open>"\0\1\4\6"[mMethod]\<close>: the literal is an array of five bytes, the four written and
  the terminating 0. An index outside it is an out-of-bounds read, \<open>None\<close>.
\<close>

definition quality_recipes :: "nat list" where
  "quality_recipes = [0, 1, 4, 6, 0]"

definition recipe_at :: "int \<Rightarrow> nat option" where
  "recipe_at i =
     (if 0 \<le> i \<and> nat i < length quality_recipes then Some (quality_recipes ! nat i) else None)"

text \<open>
  The constructor (lines 33-48). It returns the object and the world after it, or
  \<open>None\<close> where the literal is read out of bounds.
\<close>

definition Resample_ctor ::
  "('h, 's) env \<Rightarrow> bool \<Rightarrow> double \<Rightarrow> double \<Rightarrow> 's world \<Rightarrow> ('h Resample \<times> 's world) option" where
  "Resample_ctor e useBestMethod dMinFactor dMaxFactor w =
     (let (method, w1) = SetMethod e useBestMethod w;
          wantConst = (dMinFactor = dMaxFactor);
          q_spec = (if wantConst
                    then map_option (\<lambda>recipe. Quality_spec recipe 0) (recipe_at method)
                    else Some (Quality_spec (SOXR_HQ e) (SOXR_VR e)))
      in case q_spec of
           None \<Rightarrow> None
         | Some q \<Rightarrow>
             (let (h, w2) = call_soxr_create e 1 dMinFactor 1 q w1
              in Some (\<lparr>mMethod = method, mHandle = h,
                         mbWantConstRateResampling = wantConst\<rparr>, w2)))"

text \<open>
  \<^verbatim>\<open>Resample::Process\<close> (lines 105-130). Its outcome is the returned pair
  \<open>(idone, odone)\<close>, the output buffer, the object and the world after the call. The
  two locals are declared without an initial value and only \<^verbatim>\<open>soxr_process\<close> writes
  them: a component of the pair is \<open>None\<close> where it was never written. The error
  results of \<^verbatim>\<open>soxr_set_io_ratio\<close> and \<^verbatim>\<open>soxr_process\<close> are dropped.
\<close>

record ('h, 's) process_outcome =
  returned :: "size_t option \<times> size_t option"
  outBuffer_after :: "'s list"
  this_after :: "'h Resample"
  world_after :: "'s world"

definition Process ::
  "('h, 's) env \<Rightarrow> double \<Rightarrow> 's list \<Rightarrow> size_t \<Rightarrow> bool \<Rightarrow> 's list \<Rightarrow> size_t
     \<Rightarrow> 'h Resample \<Rightarrow> 's world \<Rightarrow> ('h, 's) process_outcome" where
  "Process e factor inBuffer inBufferLen lastFlag outBuffer outBufferLen r w =
     (if mbWantConstRateResampling r then
        (let (res, w1) = call_soxr_process e (mHandle r)
                           inBuffer (if lastFlag then NOT inBufferLen else inBufferLen)
                           outBuffer outBufferLen w
         in \<lparr>returned = (idone_stored res, odone_stored res),
             outBuffer_after = out_after res,
             this_after = r\<lparr>mHandle := handle_after res\<rparr>,
             world_after = w1\<rparr>)
      else
        (let (h1, w1) = call_soxr_set_io_ratio e (mHandle r) (1 / factor) 0 w;
             inBufferLen' = (if lastFlag then NOT inBufferLen else inBufferLen);
             (res, w2) = call_soxr_process e h1 inBuffer inBufferLen' outBuffer outBufferLen w1
         in \<lparr>returned = (idone_stored res, odone_stored res),
             outBuffer_after = out_after res,
             this_after = r\<lparr>mHandle := handle_after res\<rparr>,
             world_after = w2\<rparr>))"

subsection \<open>Reading the logs\<close>

text \<open>The setting \<^verbatim>\<open>SetMethod\<close> reads for a given \<open>useBestMethod\<close>.\<close>

definition selected_setting :: "bool \<Rightarrow> EnumSetting" where
  "selected_setting useBestMethod =
     (if useBestMethod then BestMethodSetting else FastMethodSetting)"

text \<open>The \<^verbatim>\<open>soxr_process\<close> calls of a log, each with its input buffer, input length
  and output capacity; and the \<^verbatim>\<open>soxr_set_io_ratio\<close> calls, each with its ratio and
  slew length.\<close>

definition process_calls :: "'s soxr_call list \<Rightarrow> ('s list \<times> size_t \<times> size_t) list" where
  "process_calls cs =
     concat (map (\<lambda>c. case c of Soxr_process inb ilen olen \<Rightarrow> [(inb, ilen, olen)] | _ \<Rightarrow> []) cs)"

definition ratio_calls :: "'s soxr_call list \<Rightarrow> (double \<times> size_t) list" where
  "ratio_calls cs =
     concat (map (\<lambda>c. case c of Soxr_set_io_ratio x n \<Rightarrow> [(x, n)] | _ \<Rightarrow> []) cs)"

subsection \<open>A concrete environment\<close>

text \<open>
  The theorems below hold for every environment. To evaluate them at concrete inputs
  one environment is fixed here. Its converter is a stand-in, not libsoxr: the handle
  holds the current input:output ratio, creation fails on a rate that is not positive,
  and processing copies samples through unchanged, reading a length with the top bit
  set as the complement of the last block's length. On a null handle it reports an
  error and stores nothing.
\<close>

text \<open>
  Modelled from the spec: \<^verbatim>\<open>EnumSetting::ReadInt\<close> (Prefs.cpp is not among the
  sources). The spec has each setting resolve to one of four discrete quality levels,
  persisted externally: the value stored under the setting's key selects the symbol
  of that name, and a missing or unknown value selects the default symbol; the result
  is the integer listed for the selected symbol.
\<close>

definition stored_ReadInt :: "EnumSetting \<Rightarrow> (string \<rightharpoonup> string) \<Rightarrow> int" where
  "stored_ReadInt s prefs =
     (let dflt = mIntValues s ! mDefaultSymbol s
      in case prefs (mKey s) of
           None \<Rightarrow> dflt
         | Some v \<Rightarrow>
             (case map_of (zip (map fst (mSymbols s)) (mIntValues s)) v of
                None \<Rightarrow> dflt
              | Some i \<Rightarrow> i))"

definition copy_create :: "double \<Rightarrow> double \<Rightarrow> nat \<Rightarrow> soxr_quality_spec_t \<Rightarrow> double option" where
  "copy_create irate orate nch q = (if 0 < irate \<and> 0 < orate then Some (irate / orate) else None)"

definition copy_set_io_ratio :: "double option \<Rightarrow> double \<Rightarrow> size_t \<Rightarrow> double option" where
  "copy_set_io_ratio h io_ratio slew_len = (case h of None \<Rightarrow> None | Some _ \<Rightarrow> Some io_ratio)"

definition copy_process ::
  "double option \<Rightarrow> 's list \<Rightarrow> size_t \<Rightarrow> 's list \<Rightarrow> size_t \<Rightarrow> (double, 's) soxr_process_result" where
  "copy_process h inb ilen outb olen =
     (case h of
        None \<Rightarrow> \<lparr>handle_after = None, idone_stored = None, odone_stored = None,
                  out_after = outb, soxr_error = True\<rparr>
      | Some x \<Rightarrow>
          (let ilen' = (if sint ilen < 0 then NOT ilen else ilen);
               n = min (min (unat ilen') (unat olen)) (min (length inb) (length outb))
           in \<lparr>handle_after = Some x, idone_stored = Some (of_nat n),
                odone_stored = Some (of_nat n),
                out_after = take n inb @ drop n outb, soxr_error = False\<rparr>))"

definition copy_env :: "(double, 's) env" where
  "copy_env =
     \<lparr>ReadInt = stored_ReadInt, SOXR_HQ = 4, SOXR_VR = 32,
      soxr_create = copy_create, soxr_set_io_ratio = copy_set_io_ratio,
      soxr_process = copy_process\<rparr>"

definition world0 :: "'s world" where
  "world0 = \<lparr>gPrefs = Map.empty, pref_reads = [], soxr_calls = []\<rparr>"

text \<open>A settings store with both settings away from their defaults: High Quality for
  the "fast" setting and Low Quality for the "best" one.\<close>

definition tuned_prefs :: "string \<rightharpoonup> string" where
  "tuned_prefs = [fastMethodKey \<mapsto> ''HighQuality'', bestMethodKey \<mapsto> ''LowQuality'']"

text \<open>Two objects for the examples: one in variable-ratio mode, as the constructor
  builds it for the bounds 1 and 2, and one in constant-ratio mode.\<close>

definition var_resample :: "double Resample" where
  "var_resample = \<lparr>mMethod = 1, mHandle = Some 1, mbWantConstRateResampling = False\<rparr>"

definition const_resample :: "double Resample" where
  "const_resample = \<lparr>mMethod = 1, mHandle = Some (1 / 2), mbWantConstRateResampling = True\<rparr>"

section \<open>Mix.h: the time state of a mix session\<close>

text \<open>
  Mix.h declares the class \<^verbatim>\<open>Mixer\<close> with the fields \<^verbatim>\<open>mT0\<close> (start time),
  \<^verbatim>\<open>mT1\<close> (stop time), \<^verbatim>\<open>mTime\<close> (current time) and \<^verbatim>\<open>mRate\<close> (output rate);
  the bodies of its member functions are in Mix.cpp, which is not among the sources.
  The definitions of this section follow the spec's description of the session's
  time state (sections 3 and 4.4). The sample path (cursors, converters, gains,
  buffers) and \<^verbatim>\<open>SetTimesAndSpeed\<close> are not part of this model. Times are real numbers.
\<close>

text \<open>
  Modelled from the spec: the states of a mix session (section 4.4), which Mix.h does
  not declare: Idle (constructed, not yet started), Mixing (normal frame production)
  and Exhausted (time range consumed).
\<close>

datatype mix_state = Idle | Mixing | Exhausted

text \<open>The four fields are those of Mix.h; \<open>mState\<close> holds the state the spec
  describes.\<close>

record Mixer =
  mT0 :: real
  mT1 :: real
  mTime :: real
  mRate :: real
  mState :: mix_state

text \<open>
  Modelled from the spec: the constructor \<^verbatim>\<open>Mixer::Mixer\<close> (Mix.cpp), which Mix.h
  declares with \<^verbatim>\<open>startTime\<close>, \<^verbatim>\<open>stopTime\<close> and \<^verbatim>\<open>outRate\<close>. The session starts
  Idle (constructed, not yet started); the current time starts at the start time,
  where \<^verbatim>\<open>Restart\<close> puts it back.
\<close>

definition Mixer_ctor :: "real \<Rightarrow> real \<Rightarrow> real \<Rightarrow> Mixer" where
  "Mixer_ctor startTime stopTime outRate =
     \<lparr>mT0 = startTime, mT1 = stopTime, mTime = startTime, mRate = outRate, mState = Idle\<rparr>"

text \<open>
  Modelled from the spec: step 1 of \<^verbatim>\<open>Mixer::Process\<close> (Mix.cpp), the remaining
  selected time \<^verbatim>\<open>mT1 - mTime\<close>, sign-aware: a session with \<^verbatim>\<open>mT1 < mT0\<close> runs
  backwards.
\<close>

definition remaining :: "Mixer \<Rightarrow> real" where
  "remaining m = (if mT0 m \<le> mT1 m then mT1 m - mTime m else mTime m - mT1 m)"

text \<open>
  Modelled from the spec: step 1 of \<^verbatim>\<open>Mixer::Process\<close> (Mix.cpp), the remaining
  selected time as output: the whole output frames that fit into it. The spec does
  not fix the rounding; whole frames (rounding down) is the reading under which
  step 5, advancing \<^verbatim>\<open>mTime\<close> by \<^verbatim>\<open>framesProduced / outRate\<close>, never passes \<^verbatim>\<open>mT1\<close>.
\<close>

definition frames_left :: "Mixer \<Rightarrow> nat" where
  "frames_left m = nat \<lfloor>remaining m * mRate m\<rfloor>"

text \<open>
  Modelled from the spec: \<^verbatim>\<open>Mixer::Process\<close> (Mix.cpp), steps 1, 5 and 6. If the
  remaining time is zero or direction-exhausted, return 0 and set Exhausted.
  Otherwise produce at most \<open>maxFrames\<close> frames (Mix.h: "Process a maximum of
  'maxSamples' samples"), no more than remain; advance \<^verbatim>\<open>mTime\<close> by
  \<^verbatim>\<open>framesProduced / outRate\<close>, direction-aware; return \<^verbatim>\<open>framesProduced\<close>.
\<close>

definition Mixer_Process :: "nat \<Rightarrow> Mixer \<Rightarrow> nat \<times> Mixer" where
  "Mixer_Process maxFrames m =
     (if frames_left m = 0 then (0, m\<lparr>mState := Exhausted\<rparr>)
      else
        (let framesProduced = min maxFrames (frames_left m)
         in (framesProduced,
             m\<lparr>mTime := (if mT0 m \<le> mT1 m
                          then mTime m + real framesProduced / mRate m
                          else mTime m - real framesProduced / mRate m),
               mState := Mixing\<rparr>)))"

text \<open>
  Modelled from the spec: \<^verbatim>\<open>Mixer::Restart\<close> (Mix.cpp): resets \<^verbatim>\<open>mTime = mT0\<close>; the
  session goes back to Mixing.
\<close>

definition Mixer_Restart :: "Mixer \<Rightarrow> Mixer" where
  "Mixer_Restart m = m\<lparr>mTime := mT0 m, mState := Mixing\<rparr>"

text \<open>
  Modelled from the spec: \<^verbatim>\<open>Mixer::Reposition\<close> (Mix.cpp): sets \<^verbatim>\<open>mTime\<close> directly,
  clamped to the selected range, without altering \<^verbatim>\<open>mT0\<close> or \<^verbatim>\<open>mT1\<close>; the session
  goes back to Mixing. \<open>bSkipping\<close> only decides whether the resampling queues are
  reset, which are not part of this model.
\<close>

definition Mixer_Reposition :: "real \<Rightarrow> bool \<Rightarrow> Mixer \<Rightarrow> Mixer" where
  "Mixer_Reposition t bSkipping m =
     m\<lparr>mTime := (if mT1 m < mT0 m then max (mT1 m) (min (mT0 m) t)
                  else max (mT0 m) (min (mT1 m) t)),
       mState := Mixing\<rparr>"

text \<open>A session as its caller drives it: a sequence of calls, each applied to the
  mixer the one before left; \<open>run_calls\<close> gives the mixer at the end.\<close>

datatype mixer_call = Call_Process nat | Call_Restart | Call_Reposition real bool

fun apply_call :: "mixer_call \<Rightarrow> Mixer \<Rightarrow> Mixer" where
  "apply_call (Call_Process maxFrames) m = snd (Mixer_Process maxFrames m)"
| "apply_call Call_Restart m = Mixer_Restart m"
| "apply_call (Call_Reposition t bSkipping) m = Mixer_Reposition t bSkipping m"

fun run_calls :: "mixer_call list \<Rightarrow> Mixer \<Rightarrow> Mixer" where
  "run_calls [] m = m"
| "run_calls (c # cs) m = run_calls cs (apply_call c m)"

text \<open>The current time lies in the selected range, whichever way the session runs.\<close>

definition in_range :: "Mixer \<Rightarrow> bool" where
  "in_range m = (min (mT0 m) (mT1 m) \<le> mTime m \<and> mTime m \<le> max (mT0 m) (mT1 m))"

text \<open>A session over the range from 0 to 1 at 4 frames per second, after all four
  frames were produced.\<close>

definition spent_mixer :: Mixer where
  "spent_mixer = \<lparr>mT0 = 0, mT1 = 1, mTime = 1, mRate = 4, mState = Mixing\<rparr>"

section \<open>Properties of Resample.cpp\<close>

lemma numMethods_eq: "numMethods = 4"
  by (simp add: numMethods_def methodNames_def)

lemma SetMethod_eq:
  "SetMethod e useBestMethod w =
     (ReadInt e (selected_setting useBestMethod) (gPrefs w),
      w\<lparr>pref_reads := pref_reads w @ [mKey (selected_setting useBestMethod)]\<rparr>)"
  by (simp add: SetMethod_def call_ReadInt_def selected_setting_def)

lemma mIntValues_selected: "mIntValues (selected_setting b) = intChoicesMethod"
  by (simp add: selected_setting_def BestMethodSetting_def FastMethodSetting_def)

lemma process_calls_append: "process_calls (xs @ ys) = process_calls xs @ process_calls ys"
  by (simp add: process_calls_def)

lemma ratio_calls_append: "ratio_calls (xs @ ys) = ratio_calls xs @ ratio_calls ys"
  by (simp add: ratio_calls_def)

lemma process_calls_simps [simp]:
  "process_calls [] = []"
  "process_calls (Soxr_process inb ilen olen # cs) = (inb, ilen, olen) # process_calls cs"
  "process_calls (Soxr_set_io_ratio x n # cs) = process_calls cs"
  "process_calls (Soxr_create a b c q # cs) = process_calls cs"
  by (simp_all add: process_calls_def)

lemma ratio_calls_simps [simp]:
  "ratio_calls [] = []"
  "ratio_calls (Soxr_process inb ilen olen # cs) = ratio_calls cs"
  "ratio_calls (Soxr_set_io_ratio x n # cs) = (x, n) # ratio_calls cs"
  "ratio_calls (Soxr_create a b c q # cs) = ratio_calls cs"
  by (simp_all add: ratio_calls_def)

lemma selected_keys [simp]:
  "mKey FastMethodSetting = fastMethodKey" "mKey BestMethodSetting = bestMethodKey"
  by (simp_all add: FastMethodSetting_def BestMethodSetting_def)

lemmas Process_unfold = Process_def call_soxr_process_def call_soxr_set_io_ratio_def Let_def

lemma recipe_at_preset:
  "m \<in> set intChoicesMethod \<Longrightarrow>
     recipe_at m = Some (if m = 0 then 0 else if m = 1 then 1 else if m = 2 then 4 else 6)"
  by (auto simp: intChoicesMethod_def recipe_at_def quality_recipes_def)

text \<open>What the constructor returns when the selected setting resolves to one of its
  declared choices, or the bounds differ.\<close>

lemma Resample_ctor_eq:
  assumes "dMinFactor = dMaxFactor \<longrightarrow>
             ReadInt e (selected_setting useBestMethod) (gPrefs w)
               \<in> set (mIntValues (selected_setting useBestMethod))"
  shows "Resample_ctor e useBestMethod dMinFactor dMaxFactor w =
     (let m = ReadInt e (selected_setting useBestMethod) (gPrefs w);
          q = (if dMinFactor = dMaxFactor
               then Quality_spec (if m = 0 then 0 else if m = 1 then 1 else if m = 2 then 4 else 6) 0
               else Quality_spec (SOXR_HQ e) (SOXR_VR e))
      in Some (\<lparr>mMethod = m, mHandle = soxr_create e 1 dMinFactor 1 q,
                 mbWantConstRateResampling = (dMinFactor = dMaxFactor)\<rparr>,
               w\<lparr>pref_reads := pref_reads w @ [mKey (selected_setting useBestMethod)],
                 soxr_calls := soxr_calls w @ [Soxr_create 1 dMinFactor 1 q]\<rparr>))"
proof (cases "dMinFactor = dMaxFactor")
  case True
  with assms have "recipe_at (ReadInt e (selected_setting useBestMethod) (gPrefs w))
      = Some (if ReadInt e (selected_setting useBestMethod) (gPrefs w) = 0 then 0
              else if ReadInt e (selected_setting useBestMethod) (gPrefs w) = 1 then 1
              else if ReadInt e (selected_setting useBestMethod) (gPrefs w) = 2 then 4 else 6)"
    by (simp add: recipe_at_preset mIntValues_selected)
  with True show ?thesis
    by (simp add: Resample_ctor_def SetMethod_eq call_soxr_create_def Let_def)
next
  case False
  then show ?thesis
    by (simp add: Resample_ctor_def SetMethod_eq call_soxr_create_def Let_def)
qed

lemma stored_ReadInt_empty:
  "stored_ReadInt BestMethodSetting Map.empty = 3"
  "stored_ReadInt FastMethodSetting Map.empty = 1"
  by (simp_all add: stored_ReadInt_def BestMethodSetting_def FastMethodSetting_def
      intChoicesMethod_def bestMethodDefault_def fastMethodDefault_def)

lemma stored_ReadInt_tuned:
  "stored_ReadInt BestMethodSetting tuned_prefs = 0"
  "stored_ReadInt FastMethodSetting tuned_prefs = 2"
  by (simp_all add: stored_ReadInt_def BestMethodSetting_def FastMethodSetting_def
      intChoicesMethod_def methodNames_def tuned_prefs_def bestMethodKey_def fastMethodKey_def)

text \<open>
  Claim C2. Every construction whose selected setting resolves to one of its declared
  choices completes. With equal bounds the object is in constant-ratio mode
  (\<open>mbWantConstRateResampling\<close> true), \<open>mMethod\<close> is one of the four presets 0 to 3,
  and the converter is created with the recipe of that preset, 0 for Low, 1 for
  Medium, 4 for High and 6 for Best, and no flags. With unequal bounds the object is
  in variable-ratio mode and the converter is created with \<^verbatim>\<open>SOXR_HQ\<close> and the
  flag \<^verbatim>\<open>SOXR_VR\<close>, which is what lets the ratio change between calls. In both
  cases the converter is created once, for the rates 1 and \<open>dMinFactor\<close> and one
  channel.
\<close>

theorem Resample_ctor_mode:
  assumes "dMinFactor = dMaxFactor \<longrightarrow>
             ReadInt e (selected_setting useBestMethod) (gPrefs w)
               \<in> set (mIntValues (selected_setting useBestMethod))"
  shows "\<exists>r w'. Resample_ctor e useBestMethod dMinFactor dMaxFactor w = Some (r, w') \<and>
           mbWantConstRateResampling r = (dMinFactor = dMaxFactor) \<and>
           mMethod r = ReadInt e (selected_setting useBestMethod) (gPrefs w) \<and>
           (dMinFactor = dMaxFactor \<longrightarrow> mMethod r \<in> {0, 1, 2, 3}) \<and>
           mHandle r = soxr_create e 1 dMinFactor 1
             (if dMinFactor = dMaxFactor
              then Quality_spec (if mMethod r = 0 then 0 else if mMethod r = 1 then 1
                                 else if mMethod r = 2 then 4 else 6) 0
              else Quality_spec (SOXR_HQ e) (SOXR_VR e)) \<and>
           soxr_calls w' = soxr_calls w @ [Soxr_create 1 dMinFactor 1
             (if dMinFactor = dMaxFactor
              then Quality_spec (if mMethod r = 0 then 0 else if mMethod r = 1 then 1
                                 else if mMethod r = 2 then 4 else 6) 0
              else Quality_spec (SOXR_HQ e) (SOXR_VR e))]"
proof -
  have "dMinFactor = dMaxFactor \<longrightarrow>
      ReadInt e (selected_setting useBestMethod) (gPrefs w) \<in> {0, 1, 2, 3}"
    using assms by (auto simp: mIntValues_selected intChoicesMethod_def)
  then show ?thesis
    unfolding Resample_ctor_eq [OF assms] by (simp add: Let_def)
qed

theorem Resample_ctor_mode_witness:
  "((2::real) = 2 \<and>
    ReadInt copy_env (selected_setting False) (gPrefs ((world0 :: nat world)\<lparr>gPrefs := tuned_prefs\<rparr>))
      \<in> set (mIntValues (selected_setting False))) \<and>
   (\<exists>r w'. Resample_ctor copy_env False 2 2 ((world0 :: nat world)\<lparr>gPrefs := tuned_prefs\<rparr>)
              = Some (r, w') \<and>
      mbWantConstRateResampling r \<and> mMethod r = 2 \<and> mHandle r = Some (1 / 2) \<and>
      soxr_calls w' = [Soxr_create 1 2 1 (Quality_spec 4 0)]) \<and>
   ((2::real) = 2 \<and>
    ReadInt copy_env (selected_setting True) (gPrefs ((world0 :: nat world)\<lparr>gPrefs := tuned_prefs\<rparr>))
      \<in> set (mIntValues (selected_setting True))) \<and>
   (\<exists>r w'. Resample_ctor copy_env True 2 2 ((world0 :: nat world)\<lparr>gPrefs := tuned_prefs\<rparr>)
              = Some (r, w') \<and>
      mbWantConstRateResampling r \<and> mMethod r = 0 \<and> mHandle r = Some (1 / 2) \<and>
      soxr_calls w' = [Soxr_create 1 2 1 (Quality_spec 0 0)])"
proof -
  have v: "ReadInt copy_env (selected_setting False)
             (gPrefs ((world0 :: nat world)\<lparr>gPrefs := tuned_prefs\<rparr>)) = 2"
    "ReadInt copy_env (selected_setting True)
             (gPrefs ((world0 :: nat world)\<lparr>gPrefs := tuned_prefs\<rparr>)) = 0"
    by (simp_all add: copy_env_def selected_setting_def stored_ReadInt_tuned)
  have h: "ReadInt copy_env (selected_setting False)
             (gPrefs ((world0 :: nat world)\<lparr>gPrefs := tuned_prefs\<rparr>))
     \<in> set (mIntValues (selected_setting False))"
    "ReadInt copy_env (selected_setting True)
             (gPrefs ((world0 :: nat world)\<lparr>gPrefs := tuned_prefs\<rparr>))
     \<in> set (mIntValues (selected_setting True))"
    unfolding v by (simp_all add: mIntValues_selected intChoicesMethod_def)
  from h have h': "(2::real) = 2 \<longrightarrow>
      ReadInt copy_env (selected_setting False)
             (gPrefs ((world0 :: nat world)\<lparr>gPrefs := tuned_prefs\<rparr>))
        \<in> set (mIntValues (selected_setting False))"
    "(2::real) = 2 \<longrightarrow>
      ReadInt copy_env (selected_setting True)
             (gPrefs ((world0 :: nat world)\<lparr>gPrefs := tuned_prefs\<rparr>))
        \<in> set (mIntValues (selected_setting True))"
    by simp_all
  show ?thesis
    using h Resample_ctor_mode [OF h'(1)] Resample_ctor_mode [OF h'(2)] unfolding v
    by (auto simp: copy_env_def copy_create_def world0_def)
qed

text \<open>
  Claim C10. With unequal bounds the construction always completes, and the converter
  is created with the fixed profile \<^verbatim>\<open>SOXR_HQ\<close>, \<^verbatim>\<open>SOXR_VR\<close>: the profile names
  neither \<open>useBestMethod\<close> nor the settings, and a second construction with any other
  selector \<open>useBestMethod2\<close> and any other settings store \<open>prefs2\<close> gets the same
  converter, the same mode and the same call to libsoxr. The presets reach
  \<^verbatim>\<open>soxr_create\<close> only in constant-ratio mode (claim C2).
\<close>

theorem variable_rate_ignores_quality_selector:
  assumes "dMinFactor \<noteq> dMaxFactor"
  shows "\<exists>r w'. Resample_ctor e useBestMethod dMinFactor dMaxFactor w = Some (r, w') \<and>
           \<not> mbWantConstRateResampling r \<and>
           mHandle r = soxr_create e 1 dMinFactor 1 (Quality_spec (SOXR_HQ e) (SOXR_VR e)) \<and>
           soxr_calls w' = soxr_calls w @
             [Soxr_create 1 dMinFactor 1 (Quality_spec (SOXR_HQ e) (SOXR_VR e))] \<and>
           (\<exists>r2 w2. Resample_ctor e useBestMethod2 dMinFactor dMaxFactor (w\<lparr>gPrefs := prefs2\<rparr>)
                       = Some (r2, w2) \<and>
              mHandle r2 = mHandle r \<and>
              mbWantConstRateResampling r2 = mbWantConstRateResampling r \<and>
              soxr_calls w2 = soxr_calls w')"
  using assms by (simp add: Resample_ctor_def SetMethod_eq call_soxr_create_def Let_def)

theorem variable_rate_ignores_quality_selector_witness:
  "(1::real) \<noteq> 2 \<and>
   (\<exists>r w'. Resample_ctor copy_env True 1 2 (world0 :: nat world) = Some (r, w') \<and>
      \<not> mbWantConstRateResampling r \<and> mHandle r = Some 1 \<and>
      soxr_calls w' = [Soxr_create 1 1 1 (Quality_spec 4 32)] \<and>
      (\<exists>r2 w2. Resample_ctor copy_env False 1 2
                  ((world0 :: nat world)\<lparr>gPrefs := [fastMethodKey \<mapsto> ''LowQuality'']\<rparr>)
                  = Some (r2, w2) \<and>
         mHandle r2 = mHandle r \<and> soxr_calls w2 = soxr_calls w'))"
proof -
  have h: "(1::real) \<noteq> 2" by simp
  show ?thesis
    using variable_rate_ignores_quality_selector [OF h, of copy_env True "world0 :: nat world"
        False "[fastMethodKey \<mapsto> ''LowQuality'']"]
    by (auto simp: copy_env_def copy_create_def world0_def)
qed

lemma Process_returned:
  "returned (Process e factor inBuffer inBufferLen lastFlag outBuffer outBufferLen r w) =
     (let h = (if mbWantConstRateResampling r then mHandle r
               else soxr_set_io_ratio e (mHandle r) (1 / factor) 0);
          res = soxr_process e h inBuffer (if lastFlag then NOT inBufferLen else inBufferLen)
                  outBuffer outBufferLen
      in (idone_stored res, odone_stored res))"
  by (simp add: Process_unfold)

lemma Process_outBuffer:
  "outBuffer_after (Process e factor inBuffer inBufferLen lastFlag outBuffer outBufferLen r w) =
     out_after (soxr_process e
        (if mbWantConstRateResampling r then mHandle r
         else soxr_set_io_ratio e (mHandle r) (1 / factor) 0)
        inBuffer (if lastFlag then NOT inBufferLen else inBufferLen) outBuffer outBufferLen)"
  by (simp add: Process_unfold)

lemma Process_calls:
  "soxr_calls (world_after
       (Process e factor inBuffer inBufferLen lastFlag outBuffer outBufferLen r w)) =
     soxr_calls w @
       (if mbWantConstRateResampling r then [] else [Soxr_set_io_ratio (1 / factor) 0]) @
       [Soxr_process inBuffer (if lastFlag then NOT inBufferLen else inBufferLen) outBufferLen]"
  by (simp add: Process_unfold)

lemma sign_bit_size_t: "sint n < 0 \<longleftrightarrow> bit n 63" for n :: size_t
  using bit_last_iff [of n] by simp

lemma sint_NOT_size_t: "sint (NOT n) < 0 \<longleftrightarrow> 0 \<le> sint n" for n :: size_t
  by (simp add: sign_bit_size_t bit_not_iff not_less [symmetric])

lemma sint_small_size_t:
  fixes n :: size_t
  assumes "unat n < 2 ^ 63"
  shows "0 \<le> sint n"
proof -
  have "\<not> bit (unat n) 63"
    using assms by (simp add: bit_iff_odd)
  then have "\<not> bit n 63"
    by (simp add: bit_unsigned_iff)
  then show ?thesis
    by (simp add: sign_bit_size_t not_less [symmetric])
qed

text \<open>
  Claim C3. In both modes a call of \<^verbatim>\<open>Process\<close> makes exactly one call of
  \<^verbatim>\<open>soxr_process\<close>. With \<open>lastFlag\<close> true the input length it passes down is the
  bitwise complement of \<open>inBufferLen\<close>, the mark of the last block; with \<open>lastFlag\<close>
  false it is \<open>inBufferLen\<close> itself. The buffer and the output capacity go down
  unchanged, and the output buffer after the call is the one the converter left for
  that length: what the converter flushes on the mark is what the caller gets. For a
  buffer length below \<open>2 ^ 63\<close> the mark can be told from a plain length by its top
  bit, and complementing it gives \<open>inBufferLen\<close> back.
\<close>

theorem Process_lastFlag_sentinel:
  "process_calls (soxr_calls (world_after
       (Process e factor inBuffer inBufferLen True outBuffer outBufferLen r w)))
     = process_calls (soxr_calls w) @ [(inBuffer, NOT inBufferLen, outBufferLen)] \<and>
   process_calls (soxr_calls (world_after
       (Process e factor inBuffer inBufferLen False outBuffer outBufferLen r w)))
     = process_calls (soxr_calls w) @ [(inBuffer, inBufferLen, outBufferLen)] \<and>
   outBuffer_after (Process e factor inBuffer inBufferLen True outBuffer outBufferLen r w)
     = out_after (soxr_process e
         (if mbWantConstRateResampling r then mHandle r
          else soxr_set_io_ratio e (mHandle r) (1 / factor) 0)
         inBuffer (NOT inBufferLen) outBuffer outBufferLen) \<and>
   outBuffer_after (Process e factor inBuffer inBufferLen False outBuffer outBufferLen r w)
     = out_after (soxr_process e
         (if mbWantConstRateResampling r then mHandle r
          else soxr_set_io_ratio e (mHandle r) (1 / factor) 0)
         inBuffer inBufferLen outBuffer outBufferLen) \<and>
   (unat inBufferLen < 2 ^ 63 \<longrightarrow>
      sint (NOT inBufferLen) < 0 \<and> 0 \<le> sint inBufferLen \<and>
      NOT (NOT inBufferLen) = inBufferLen)"
  by (simp add: Process_calls Process_outBuffer process_calls_append sint_NOT_size_t
      sint_small_size_t)

theorem Process_lastFlag_sentinel_witness:
  "process_calls (soxr_calls (world_after
       (Process copy_env 2 [10, 20, 30 :: nat] 3 True [0, 0, 0, 0] 4 const_resample world0)))
     = [([10, 20, 30], NOT 3, 4)] \<and>
   process_calls (soxr_calls (world_after
       (Process copy_env 2 [10, 20, 30 :: nat] 3 False [0, 0, 0, 0] 4 var_resample world0)))
     = [([10, 20, 30], 3, 4)] \<and>
   outBuffer_after
       (Process copy_env 2 [10, 20, 30 :: nat] 3 True [0, 0, 0, 0] 4 const_resample world0)
     = [10, 20, 30, 0] \<and>
   unat (3 :: size_t) < 2 ^ 63 \<and> sint (NOT (3 :: size_t)) < 0 \<and> 0 \<le> sint (3 :: size_t)"
  using Process_lastFlag_sentinel [of copy_env 2 "[10, 20, 30 :: nat]" 3 "[0, 0, 0, 0]" 4
      const_resample world0]
    Process_lastFlag_sentinel [of copy_env 2 "[10, 20, 30 :: nat]" 3 "[0, 0, 0, 0]" 4
      var_resample world0]
  by (simp add: const_resample_def var_resample_def world0_def copy_env_def copy_process_def)

text \<open>
  Claim C1, as the code has it. In constant-ratio mode the call does not depend on
  \<open>factor\<close> at all: any two factors give the same outcome, no ratio is set, and the
  converter is run on the handle as it stands. In variable-ratio mode, for a factor
  other than 0, the call first sets the converter's input:output ratio to the
  reciprocal \<open>1 / factor\<close> (with slew length 0) and then runs the converter, on the
  handle that call left: \<open>factor\<close> is the output:input ratio.
\<close>

theorem Process_factor_use:
  "(mbWantConstRateResampling r \<longrightarrow>
      Process e factor inBuffer inBufferLen lastFlag outBuffer outBufferLen r w
        = Process e factor' inBuffer inBufferLen lastFlag outBuffer outBufferLen r w \<and>
      ratio_calls (soxr_calls (world_after
        (Process e factor inBuffer inBufferLen lastFlag outBuffer outBufferLen r w)))
        = ratio_calls (soxr_calls w) \<and>
      returned (Process e factor inBuffer inBufferLen lastFlag outBuffer outBufferLen r w)
        = (let res = soxr_process e (mHandle r) inBuffer
                       (if lastFlag then NOT inBufferLen else inBufferLen) outBuffer outBufferLen
           in (idone_stored res, odone_stored res))) \<and>
   (\<not> mbWantConstRateResampling r \<and> factor \<noteq> 0 \<longrightarrow>
      soxr_calls (world_after
        (Process e factor inBuffer inBufferLen lastFlag outBuffer outBufferLen r w))
        = soxr_calls w @
            [Soxr_set_io_ratio (1 / factor) 0,
             Soxr_process inBuffer (if lastFlag then NOT inBufferLen else inBufferLen)
               outBufferLen] \<and>
      returned (Process e factor inBuffer inBufferLen lastFlag outBuffer outBufferLen r w)
        = (let res = soxr_process e (soxr_set_io_ratio e (mHandle r) (1 / factor) 0) inBuffer
                       (if lastFlag then NOT inBufferLen else inBufferLen) outBuffer outBufferLen
           in (idone_stored res, odone_stored res)))"
proof (intro conjI impI)
  assume c: "mbWantConstRateResampling r"
  then show "Process e factor inBuffer inBufferLen lastFlag outBuffer outBufferLen r w
        = Process e factor' inBuffer inBufferLen lastFlag outBuffer outBufferLen r w"
    by (simp add: Process_def)
  from c show "ratio_calls (soxr_calls (world_after
        (Process e factor inBuffer inBufferLen lastFlag outBuffer outBufferLen r w)))
        = ratio_calls (soxr_calls w)"
    by (simp add: Process_calls ratio_calls_append)
  from c show "returned (Process e factor inBuffer inBufferLen lastFlag outBuffer outBufferLen r w)
        = (let res = soxr_process e (mHandle r) inBuffer
                       (if lastFlag then NOT inBufferLen else inBufferLen) outBuffer outBufferLen
           in (idone_stored res, odone_stored res))"
    by (simp add: Process_returned)
next
  assume v: "\<not> mbWantConstRateResampling r \<and> factor \<noteq> 0"
  then show "soxr_calls (world_after
        (Process e factor inBuffer inBufferLen lastFlag outBuffer outBufferLen r w))
        = soxr_calls w @
            [Soxr_set_io_ratio (1 / factor) 0,
             Soxr_process inBuffer (if lastFlag then NOT inBufferLen else inBufferLen)
               outBufferLen]"
    by (simp add: Process_calls)
  from v show "returned (Process e factor inBuffer inBufferLen lastFlag outBuffer outBufferLen r w)
        = (let res = soxr_process e (soxr_set_io_ratio e (mHandle r) (1 / factor) 0) inBuffer
                       (if lastFlag then NOT inBufferLen else inBufferLen) outBuffer outBufferLen
           in (idone_stored res, odone_stored res))"
    by (simp add: Process_returned)
qed

lemma var_resample_ctor:
  "Resample_ctor copy_env False 1 2 (world0 :: nat world) =
     Some (var_resample, world0\<lparr>pref_reads := [fastMethodKey],
                                 soxr_calls := [Soxr_create 1 1 1 (Quality_spec 4 32)]\<rparr>)"
  by (simp add: Resample_ctor_def SetMethod_eq call_soxr_create_def selected_setting_def
      copy_env_def copy_create_def stored_ReadInt_empty var_resample_def world0_def)


text \<open>
  Claim C1 as stated has \<open>factor\<close> itself applied as the input:output ratio. For the
  object the constructor builds for the bounds 1 and 2, a call with factor 2 sets the
  ratio 1/2, not 2.
\<close>

theorem Process_factor_use_counterexample:
  "Resample_ctor copy_env False 1 2 (world0 :: nat world) =
     Some (var_resample, world0\<lparr>pref_reads := [fastMethodKey],
                                 soxr_calls := [Soxr_create 1 1 1 (Quality_spec 4 32)]\<rparr>) \<and>
   \<not> mbWantConstRateResampling var_resample \<and>
   ratio_calls (soxr_calls (world_after
      (Process copy_env 2 [10, 20, 30 :: nat] 3 False [0, 0, 0, 0] 4 var_resample world0)))
     = [(1 / 2, 0)] \<and>
   ratio_calls (soxr_calls (world_after
      (Process copy_env 2 [10, 20, 30 :: nat] 3 False [0, 0, 0, 0] 4 var_resample world0)))
     \<noteq> [(2, 0)] \<and>
   this_after (Process copy_env 2 [10, 20, 30 :: nat] 3 False [0, 0, 0, 0] 4 var_resample world0)
     = var_resample\<lparr>mHandle := Some (1 / 2)\<rparr>"
  by (simp add: var_resample_ctor)
    (simp add: Process_unfold var_resample_def world0_def copy_env_def copy_set_io_ratio_def
      copy_process_def)

theorem Process_factor_use_witness:
  "mbWantConstRateResampling const_resample \<and>
   Process copy_env 2 [10, 20, 30 :: nat] 3 True [0, 0, 0, 0] 4 const_resample world0
     = Process copy_env 7 [10, 20, 30 :: nat] 3 True [0, 0, 0, 0] 4 const_resample world0 \<and>
   returned (Process copy_env 2 [10, 20, 30 :: nat] 3 True [0, 0, 0, 0] 4 const_resample world0)
     = (Some 3, Some 3) \<and>
   \<not> mbWantConstRateResampling var_resample \<and> (2 :: real) \<noteq> 0 \<and>
   soxr_calls (world_after
      (Process copy_env 2 [10, 20, 30 :: nat] 3 True [0, 0, 0, 0] 4 var_resample world0))
     = [Soxr_set_io_ratio (1 / 2) 0, Soxr_process [10, 20, 30] (NOT 3) 4]"
  using Process_factor_use [of const_resample copy_env 2 "[10, 20, 30 :: nat]" 3 True
      "[0, 0, 0, 0]" 4 world0 7]
    Process_factor_use [of var_resample copy_env 2 "[10, 20, 30 :: nat]" 3 True
      "[0, 0, 0, 0]" 4 world0 7]
  by (simp add: Process_unfold const_resample_def var_resample_def world0_def copy_env_def
      copy_process_def copy_set_io_ratio_def)

lemma Process_prefs:
  "pref_reads (world_after
      (Process e factor inBuffer inBufferLen lastFlag outBuffer outBufferLen r w)) = pref_reads w"
  "gPrefs (world_after
      (Process e factor inBuffer inBufferLen lastFlag outBuffer outBufferLen r w)) = gPrefs w"
  "mMethod (this_after
      (Process e factor inBuffer inBufferLen lastFlag outBuffer outBufferLen r w)) = mMethod r"
  by (simp_all add: Process_unfold)

lemma Process_gPrefs_update:
  "Process e factor inBuffer inBufferLen lastFlag outBuffer outBufferLen r (w\<lparr>gPrefs := prefs2\<rparr>) =
     (Process e factor inBuffer inBufferLen lastFlag outBuffer outBufferLen r w)
       \<lparr>world_after := (world_after
          (Process e factor inBuffer inBufferLen lastFlag outBuffer outBufferLen r w))
            \<lparr>gPrefs := prefs2\<rparr>\<rparr>"
  by (simp add: Process_unfold)

lemma setting_tables:
  "map fst (mSymbols (selected_setting b)) =
     [''LowQuality'', ''MediumQuality'', ''HighQuality'', ''BestQuality'']"
  "mIntValues (selected_setting b) = [0, 1, 2, 3]"
  "mnSymbols (selected_setting b) = 4"
  by (simp_all add: selected_setting_def BestMethodSetting_def FastMethodSetting_def
      methodNames_def intChoicesMethod_def numMethods_eq)

lemma setting_defaults:
  "mSymbols BestMethodSetting ! mDefaultSymbol BestMethodSetting
     = (''BestQuality'', ''Best Quality (Slowest)'')"
  "mSymbols FastMethodSetting ! mDefaultSymbol FastMethodSetting
     = (''MediumQuality'', ''Medium Quality'')"
  "mKey BestMethodSetting \<noteq> mKey FastMethodSetting"
  by (simp_all add: BestMethodSetting_def FastMethodSetting_def methodNames_def
      bestMethodDefault_def fastMethodDefault_def bestMethodKey_def fastMethodKey_def)

text \<open>
  Claim C6. Every construction whose selected setting resolves to one of its declared
  choices completes, and it has read exactly one setting, once: the "best" setting
  when \<open>useBestMethod\<close> is true, the "fast" setting when it is false. \<open>mMethod\<close> is what
  that read returned, and with equal bounds it is the level the converter is created
  with. The two settings have different keys; the default symbol of the "best"
  setting is Best Quality and that of the "fast" setting is Medium Quality; each
  lists the four symbols Low, Medium, High and Best with the values 0 to 3. Every
  later call of \<^verbatim>\<open>Process\<close> on the object reads no setting and leaves \<open>mMethod\<close> as it
  is, and replacing the settings store by any other before the call changes nothing
  of its outcome but the store itself.
\<close>

theorem quality_read_once_at_construction:
  assumes "dMinFactor = dMaxFactor \<longrightarrow>
             ReadInt e (selected_setting useBestMethod) (gPrefs w)
               \<in> set (mIntValues (selected_setting useBestMethod))"
  shows "\<exists>r w'. Resample_ctor e useBestMethod dMinFactor dMaxFactor w = Some (r, w') \<and>
     mMethod r = ReadInt e (selected_setting useBestMethod) (gPrefs w) \<and>
     pref_reads w' = pref_reads w @ [mKey (selected_setting useBestMethod)] \<and>
     gPrefs w' = gPrefs w \<and>
     (dMinFactor = dMaxFactor \<longrightarrow>
        soxr_calls w' = soxr_calls w @ [Soxr_create 1 dMinFactor 1
          (Quality_spec (if mMethod r = 0 then 0 else if mMethod r = 1 then 1
                         else if mMethod r = 2 then 4 else 6) 0)]) \<and>
     selected_setting True = BestMethodSetting \<and>
     selected_setting False = FastMethodSetting \<and>
     mKey BestMethodSetting \<noteq> mKey FastMethodSetting \<and>
     mSymbols BestMethodSetting ! mDefaultSymbol BestMethodSetting
       = (''BestQuality'', ''Best Quality (Slowest)'') \<and>
     mSymbols FastMethodSetting ! mDefaultSymbol FastMethodSetting
       = (''MediumQuality'', ''Medium Quality'') \<and>
     map fst (mSymbols (selected_setting useBestMethod))
       = [''LowQuality'', ''MediumQuality'', ''HighQuality'', ''BestQuality''] \<and>
     mIntValues (selected_setting useBestMethod) = [0, 1, 2, 3] \<and>
     (\<forall>factor inBuffer inBufferLen lastFlag outBuffer outBufferLen w2 prefs2.
        pref_reads (world_after
          (Process e factor inBuffer inBufferLen lastFlag outBuffer outBufferLen r w2))
          = pref_reads w2 \<and>
        mMethod (this_after
          (Process e factor inBuffer inBufferLen lastFlag outBuffer outBufferLen r w2))
          = mMethod r \<and>
        Process e factor inBuffer inBufferLen lastFlag outBuffer outBufferLen r
            (w2\<lparr>gPrefs := prefs2\<rparr>)
          = (Process e factor inBuffer inBufferLen lastFlag outBuffer outBufferLen r w2)
              \<lparr>world_after := (world_after
                 (Process e factor inBuffer inBufferLen lastFlag outBuffer outBufferLen r w2))
                   \<lparr>gPrefs := prefs2\<rparr>\<rparr>)"
proof -
  have s: "selected_setting True = BestMethodSetting" "selected_setting False = FastMethodSetting"
    by (simp_all add: selected_setting_def)
  have k: "bestMethodKey \<noteq> fastMethodKey"
    by (simp add: bestMethodKey_def fastMethodKey_def)
  show ?thesis
    unfolding Resample_ctor_eq [OF assms]
    by (simp add: Let_def s k setting_tables setting_defaults Process_prefs
        Process_gPrefs_update)
qed

theorem quality_read_once_at_construction_witness:
  "((2::real) = 2 \<and>
    ReadInt copy_env (selected_setting False) (gPrefs ((world0 :: nat world)\<lparr>gPrefs := tuned_prefs\<rparr>))
      \<in> set (mIntValues (selected_setting False))) \<and>
   (\<exists>r w'. Resample_ctor copy_env False 2 2 ((world0 :: nat world)\<lparr>gPrefs := tuned_prefs\<rparr>)
              = Some (r, w') \<and>
      mbWantConstRateResampling r \<and> mMethod r = 2 \<and>
      pref_reads w' = [fastMethodKey] \<and>
      soxr_calls w' = [Soxr_create 1 2 1 (Quality_spec 4 0)] \<and>
      returned (Process copy_env 2 [10, 20, 30] 3 False [0, 0, 0, 0] 4 r
                  (w'\<lparr>gPrefs := Map.empty\<rparr>))
        = returned (Process copy_env 2 [10, 20, 30] 3 False [0, 0, 0, 0] 4 r w') \<and>
      returned (Process copy_env 2 [10, 20, 30] 3 False [0, 0, 0, 0] 4 r w')
        = (Some 3, Some 3) \<and>
      pref_reads (world_after (Process copy_env 2 [10, 20, 30] 3 False [0, 0, 0, 0] 4 r w'))
        = [fastMethodKey])"
proof -
  have v: "ReadInt copy_env (selected_setting False)
             (gPrefs ((world0 :: nat world)\<lparr>gPrefs := tuned_prefs\<rparr>)) = 2"
    by (simp add: copy_env_def selected_setting_def stored_ReadInt_tuned)
  have h: "ReadInt copy_env (selected_setting False)
             (gPrefs ((world0 :: nat world)\<lparr>gPrefs := tuned_prefs\<rparr>))
     \<in> set (mIntValues (selected_setting False))"
    unfolding v by (simp add: mIntValues_selected intChoicesMethod_def)
  then have h': "(2::real) = 2 \<longrightarrow>
      ReadInt copy_env (selected_setting False)
             (gPrefs ((world0 :: nat world)\<lparr>gPrefs := tuned_prefs\<rparr>))
        \<in> set (mIntValues (selected_setting False))"
    by simp
  have c: "Resample_ctor copy_env False 2 2 ((world0 :: nat world)\<lparr>gPrefs := tuned_prefs\<rparr>) =
      Some (const_resample\<lparr>mMethod := 2\<rparr>,
            world0\<lparr>gPrefs := tuned_prefs, pref_reads := [fastMethodKey],
                   soxr_calls := [Soxr_create 1 2 1 (Quality_spec 4 0)]\<rparr>)"
    unfolding Resample_ctor_eq [OF h'] v
    by (simp add: Let_def selected_setting_def const_resample_def copy_env_def copy_create_def
        world0_def)
  show ?thesis
    using h quality_read_once_at_construction [OF h'] unfolding c
    by (simp add: Process_unfold const_resample_def world0_def copy_env_def copy_process_def)
qed

section \<open>Properties of the mix session's time state\<close>

lemma Mixer_Process_frame [simp]:
  "mT0 (snd (Mixer_Process k m)) = mT0 m"
  "mT1 (snd (Mixer_Process k m)) = mT1 m"
  "mRate (snd (Mixer_Process k m)) = mRate m"
  by (simp_all add: Mixer_Process_def Let_def)

lemma Mixer_Restart_frame [simp]:
  "mT0 (Mixer_Restart m) = mT0 m"
  "mT1 (Mixer_Restart m) = mT1 m"
  "mRate (Mixer_Restart m) = mRate m"
  "mTime (Mixer_Restart m) = mT0 m"
  by (simp_all add: Mixer_Restart_def)

lemma Mixer_Reposition_frame [simp]:
  "mT0 (Mixer_Reposition t b m) = mT0 m"
  "mT1 (Mixer_Reposition t b m) = mT1 m"
  "mRate (Mixer_Reposition t b m) = mRate m"
  by (simp_all add: Mixer_Reposition_def)

lemma frames_left_pos:
  assumes "0 < frames_left m" and "0 \<le> remaining m"
  shows "0 < mRate m" and "real (frames_left m) \<le> remaining m * mRate m"
proof -
  from assms(1) have f: "1 \<le> \<lfloor>remaining m * mRate m\<rfloor>"
    by (simp add: frames_left_def)
  then have p: "1 \<le> remaining m * mRate m"
    by linarith
  show "0 < mRate m"
  proof (rule ccontr)
    assume "\<not> 0 < mRate m"
    then have "remaining m * mRate m \<le> 0"
      using assms(2) by (simp add: mult_nonneg_nonpos)
    with p show False by simp
  qed
  from f have "real (frames_left m) = of_int \<lfloor>remaining m * mRate m\<rfloor>"
    by (simp add: frames_left_def)
  then show "real (frames_left m) \<le> remaining m * mRate m"
    by simp
qed

lemma in_range_remaining: "in_range m \<Longrightarrow> 0 \<le> remaining m"
  by (auto simp: in_range_def remaining_def min_def max_def split: if_splits)

lemma produced_fits:
  assumes "in_range m" and "0 < frames_left m" and "n \<le> frames_left m"
  shows "real n / mRate m \<le> remaining m"
proof -
  have r: "0 < mRate m" and l: "real (frames_left m) \<le> remaining m * mRate m"
    using frames_left_pos [OF assms(2) in_range_remaining [OF assms(1)]] by simp_all
  from assms(3) l have "real n \<le> remaining m * mRate m"
    by linarith
  with r show ?thesis
    by (simp add: pos_divide_le_eq)
qed

lemma in_range_Process:
  assumes "in_range m"
  shows "in_range (snd (Mixer_Process k m))"
proof (cases "frames_left m = 0")
  case True
  with assms show ?thesis
    by (simp add: Mixer_Process_def in_range_def)
next
  case False
  then have pos: "0 < frames_left m" by simp
  let ?n = "min k (frames_left m)"
  have fit: "real ?n / mRate m \<le> remaining m"
    by (rule produced_fits [OF assms pos]) simp
  have r: "0 < mRate m"
    using frames_left_pos(1) [OF pos in_range_remaining [OF assms]] .
  then have nn: "0 \<le> real ?n / mRate m"
    by simp
  show ?thesis
  proof (cases "mT0 m \<le> mT1 m")
    case True
    with assms fit nn False show ?thesis
      by (simp add: Mixer_Process_def Let_def in_range_def remaining_def)
  next
    case b: False
    with assms fit nn False show ?thesis
      by (simp add: Mixer_Process_def Let_def in_range_def remaining_def)
  qed
qed

lemma in_range_Restart: "in_range (Mixer_Restart m)"
  by (simp add: in_range_def)

lemma in_range_Reposition: "in_range (Mixer_Reposition t b m)"
  by (simp add: in_range_def Mixer_Reposition_def)

lemma in_range_apply_call: "in_range m \<Longrightarrow> in_range (apply_call c m)"
  by (cases c) (simp_all add: in_range_Process in_range_Restart in_range_Reposition)

lemma apply_call_frame [simp]:
  "mT0 (apply_call c m) = mT0 m" "mT1 (apply_call c m) = mT1 m"
  by (cases c; simp)+

lemma run_calls_inv:
  "in_range m \<Longrightarrow>
     in_range (run_calls cs m) \<and> mT0 (run_calls cs m) = mT0 m \<and> mT1 (run_calls cs m) = mT1 m"
  by (induction cs arbitrary: m) (simp_all add: in_range_apply_call)

lemma in_range_ctor: "in_range (Mixer_ctor t0 t1 rate)"
  by (simp add: in_range_def Mixer_ctor_def)

text \<open>
  Claim C8. From construction on, whatever calls of \<^verbatim>\<open>Process\<close>, \<^verbatim>\<open>Restart\<close> and
  \<^verbatim>\<open>Reposition\<close> the caller makes, in whatever order, the current time stays within
  the closed interval from \<open>min mT0 mT1\<close> to \<open>max mT0 mT1\<close>, and \<open>mT0\<close> and \<open>mT1\<close>
  stay what the constructor was given. \<^verbatim>\<open>Restart\<close> sets the current time to \<open>mT0\<close>.
  \<^verbatim>\<open>Reposition\<close> sets it to \<open>t\<close> when \<open>t\<close> lies in the interval and to the nearer end
  of the interval otherwise. Neither alters \<open>mT0\<close> or \<open>mT1\<close>.
\<close>

theorem mTime_within_selected_range:
  "min startTime stopTime \<le> mTime (run_calls cs (Mixer_ctor startTime stopTime outRate)) \<and>
   mTime (run_calls cs (Mixer_ctor startTime stopTime outRate)) \<le> max startTime stopTime \<and>
   mT0 (run_calls cs (Mixer_ctor startTime stopTime outRate)) = startTime \<and>
   mT1 (run_calls cs (Mixer_ctor startTime stopTime outRate)) = stopTime \<and>
   mTime (Mixer_Restart m) = mT0 m \<and>
   mT0 (Mixer_Restart m) = mT0 m \<and> mT1 (Mixer_Restart m) = mT1 m \<and>
   (min (mT0 m) (mT1 m) \<le> t \<and> t \<le> max (mT0 m) (mT1 m)
      \<longrightarrow> mTime (Mixer_Reposition t bSkipping m) = t) \<and>
   (t < min (mT0 m) (mT1 m) \<longrightarrow> mTime (Mixer_Reposition t bSkipping m) = min (mT0 m) (mT1 m)) \<and>
   (max (mT0 m) (mT1 m) < t \<longrightarrow> mTime (Mixer_Reposition t bSkipping m) = max (mT0 m) (mT1 m)) \<and>
   mT0 (Mixer_Reposition t bSkipping m) = mT0 m \<and>
   mT1 (Mixer_Reposition t bSkipping m) = mT1 m"
proof -
  have i: "in_range (run_calls cs (Mixer_ctor startTime stopTime outRate))"
    and a: "mT0 (run_calls cs (Mixer_ctor startTime stopTime outRate)) = startTime"
    and b: "mT1 (run_calls cs (Mixer_ctor startTime stopTime outRate)) = stopTime"
    using run_calls_inv [OF in_range_ctor, of cs startTime stopTime outRate]
    by (simp_all add: Mixer_ctor_def)
  from i have "min startTime stopTime \<le> mTime (run_calls cs (Mixer_ctor startTime stopTime outRate)) \<and>
     mTime (run_calls cs (Mixer_ctor startTime stopTime outRate)) \<le> max startTime stopTime"
    unfolding in_range_def a b .
  with a b have "min startTime stopTime \<le> mTime (run_calls cs (Mixer_ctor startTime stopTime outRate)) \<and>
     mTime (run_calls cs (Mixer_ctor startTime stopTime outRate)) \<le> max startTime stopTime \<and>
     mT0 (run_calls cs (Mixer_ctor startTime stopTime outRate)) = startTime \<and>
     mT1 (run_calls cs (Mixer_ctor startTime stopTime outRate)) = stopTime"
    by blast
  moreover have "(min (mT0 m) (mT1 m) \<le> t \<and> t \<le> max (mT0 m) (mT1 m)
      \<longrightarrow> mTime (Mixer_Reposition t bSkipping m) = t) \<and>
   (t < min (mT0 m) (mT1 m) \<longrightarrow> mTime (Mixer_Reposition t bSkipping m) = min (mT0 m) (mT1 m)) \<and>
   (max (mT0 m) (mT1 m) < t \<longrightarrow> mTime (Mixer_Reposition t bSkipping m) = max (mT0 m) (mT1 m))"
    by (auto simp: Mixer_Reposition_def min_def max_def)
  ultimately show ?thesis
    by simp
qed

theorem mTime_within_selected_range_witness:
  "mTime (run_calls [Call_Process 3, Call_Reposition 5 True, Call_Process 3, Call_Restart,
               Call_Process 1] (Mixer_ctor 0 1 4)) = 1 / 4 \<and>
   min (mT0 spent_mixer) (mT1 spent_mixer) \<le> 1 / 2 \<and>
   1 / 2 \<le> max (mT0 spent_mixer) (mT1 spent_mixer) \<and>
   mTime (Mixer_Reposition (1 / 2) False spent_mixer) = 1 / 2 \<and>
   - 1 < min (mT0 spent_mixer) (mT1 spent_mixer) \<and>
   mTime (Mixer_Reposition (- 1) False spent_mixer) = 0 \<and>
   max (mT0 spent_mixer) (mT1 spent_mixer) < 5 \<and>
   mTime (Mixer_Reposition 5 False spent_mixer) = 1"
proof -
  have t: "mTime (run_calls [Call_Process 3, Call_Reposition 5 True, Call_Process 3,
               Call_Restart, Call_Process 1] (Mixer_ctor 0 1 4)) = 1 / 4"
    by (simp add: Mixer_Process_def Mixer_ctor_def Mixer_Reposition_def Mixer_Restart_def
        frames_left_def remaining_def Let_def)
  have r: "min (mT0 spent_mixer) (mT1 spent_mixer) = 0" "max (mT0 spent_mixer) (mT1 spent_mixer) = 1"
    by (simp_all add: spent_mixer_def)
  show ?thesis
    using mTime_within_selected_range [where cs = "[Call_Process 3, Call_Reposition 5 True,
        Call_Process 3, Call_Restart, Call_Process 1]" and startTime = 0 and stopTime = 1
        and outRate = 4 and m = spent_mixer and t = "1 / 2" and bSkipping = False]
      mTime_within_selected_range [where cs = "[]" and startTime = 0 and stopTime = 1
        and outRate = 4 and m = spent_mixer and t = "- 1" and bSkipping = False]
      mTime_within_selected_range [where cs = "[]" and startTime = 0 and stopTime = 1
        and outRate = 4 and m = spent_mixer and t = 5 and bSkipping = False] t
    by (simp add: r)
qed

lemma spent_mixer_reached: "snd (Mixer_Process 4 (Mixer_ctor 0 1 4)) = spent_mixer"
  by (simp add: Mixer_Process_def Mixer_ctor_def frames_left_def remaining_def Let_def
      spent_mixer_def)

end
